theory Spec2Isabelle
  imports Complex_Main
begin

section \<open>JavaScript numbers\<close>

text \<open>
  A JavaScript \<open>number\<close> is a finite value, one of the two infinities, or NaN.
  The result of a finite sum, product or quotient is rounded to the nearest double
  (binary64: 53 significant bits, ties to the even significand, gradual underflow,
  overflow to an infinity).  There is one zero: a zero divisor is taken as \<open>+0\<close>.
  Every comparison with NaN is false.
\<close>

datatype jsnum = Fin real | PInf | NInf | NaN

text \<open>The nearest integer, a tie going to the even one.\<close>

definition roundHalfEven :: "real \<Rightarrow> int" where
  "roundHalfEven r =
     (let f = \<lfloor>r\<rfloor>; d = r - of_int f in
      if d < 1 / 2 then f else if 1 / 2 < d then f + 1
      else if even f then f else f + 1)"

text \<open>
  The binary exponent of a nonzero value, not below that of the smallest normal double;
  doubles with this exponent are \<open>2 powr (exponent64 x - 52)\<close> apart.
\<close>

definition exponent64 :: "real \<Rightarrow> int" where
  "exponent64 x = max \<lfloor>log 2 \<bar>x\<bar>\<rfloor> (- 1022)"

definition round64 :: "real \<Rightarrow> jsnum" where
  "round64 x =
     (if x = 0 then Fin 0
      else
        let ulp = 2 powr (of_int (exponent64 x) - 52);
            y = of_int (roundHalfEven (x / ulp)) * ulp
        in if 2 powr 1024 \<le> \<bar>y\<bar> then (if 0 < x then PInf else NInf) else Fin y)"

fun js_neg :: "jsnum \<Rightarrow> jsnum" where
  "js_neg (Fin x) = Fin (- x)"
| "js_neg PInf = NInf"
| "js_neg NInf = PInf"
| "js_neg NaN = NaN"

fun js_add :: "jsnum \<Rightarrow> jsnum \<Rightarrow> jsnum" where
  "js_add NaN _ = NaN"
| "js_add _ NaN = NaN"
| "js_add (Fin x) (Fin y) = round64 (x + y)"
| "js_add PInf NInf = NaN"
| "js_add NInf PInf = NaN"
| "js_add PInf _ = PInf"
| "js_add _ PInf = PInf"
| "js_add NInf _ = NInf"
| "js_add _ NInf = NInf"

definition js_sub :: "jsnum \<Rightarrow> jsnum \<Rightarrow> jsnum" where
  "js_sub a b = js_add a (js_neg b)"

fun js_mul :: "jsnum \<Rightarrow> jsnum \<Rightarrow> jsnum" where
  "js_mul NaN _ = NaN"
| "js_mul _ NaN = NaN"
| "js_mul (Fin x) (Fin y) = round64 (x * y)"
| "js_mul PInf (Fin y) = (if y = 0 then NaN else if 0 < y then PInf else NInf)"
| "js_mul NInf (Fin y) = (if y = 0 then NaN else if 0 < y then NInf else PInf)"
| "js_mul (Fin x) PInf = (if x = 0 then NaN else if 0 < x then PInf else NInf)"
| "js_mul (Fin x) NInf = (if x = 0 then NaN else if 0 < x then NInf else PInf)"
| "js_mul PInf PInf = PInf"
| "js_mul NInf NInf = PInf"
| "js_mul PInf NInf = NInf"
| "js_mul NInf PInf = NInf"

fun js_div :: "jsnum \<Rightarrow> jsnum \<Rightarrow> jsnum" where
  "js_div NaN _ = NaN"
| "js_div _ NaN = NaN"
| "js_div (Fin x) (Fin y) =
     (if y = 0 then (if x = 0 then NaN else if 0 < x then PInf else NInf)
      else round64 (x / y))"
| "js_div (Fin x) _ = Fin 0"
| "js_div PInf (Fin y) = (if 0 \<le> y then PInf else NInf)"
| "js_div NInf (Fin y) = (if 0 \<le> y then NInf else PInf)"
| "js_div _ _ = NaN"

fun js_floor :: "jsnum \<Rightarrow> jsnum" where
  "js_floor (Fin x) = Fin (of_int \<lfloor>x\<rfloor>)"
| "js_floor v = v"

fun js_round :: "jsnum \<Rightarrow> jsnum" where
  "js_round (Fin x) = Fin (of_int \<lfloor>x + 1 / 2\<rfloor>)"
| "js_round v = v"

fun js_abs :: "jsnum \<Rightarrow> jsnum" where
  "js_abs (Fin x) = Fin \<bar>x\<bar>"
| "js_abs PInf = PInf"
| "js_abs NInf = PInf"
| "js_abs NaN = NaN"

fun js_le :: "jsnum \<Rightarrow> jsnum \<Rightarrow> bool" where
  "js_le NaN _ = False"
| "js_le _ NaN = False"
| "js_le (Fin x) (Fin y) = (x \<le> y)"
| "js_le NInf _ = True"
| "js_le _ PInf = True"
| "js_le _ _ = False"

fun js_gt :: "jsnum \<Rightarrow> jsnum \<Rightarrow> bool" where
  "js_gt NaN _ = False"
| "js_gt _ NaN = False"
| "js_gt a b = (\<not> js_le a b)"

fun js_max :: "jsnum \<Rightarrow> jsnum \<Rightarrow> jsnum" where
  "js_max NaN _ = NaN"
| "js_max _ NaN = NaN"
| "js_max a b = (if js_le a b then b else a)"

section \<open>Answer validator (MathEngine.validateAnswer)\<close>

definition validateAnswer :: "jsnum \<Rightarrow> jsnum \<Rightarrow> jsnum \<Rightarrow> bool" where
  "validateAnswer userAnswer correctAnswer tolerance =
     js_le (js_abs (js_sub userAnswer correctAnswer)) tolerance"

text \<open>The parameter default \<open>tolerance = 0.01\<close>: the double nearest to it.\<close>

definition defaultTolerance :: jsnum where
  "defaultTolerance = round64 (1 / 100)"

section \<open>Problem generator (MathEngine)\<close>

datatype Operation =
  Addition | Subtraction | Multiplication | Division | Percentage
  | OtherOperation string

datatype Difficulty =
  Beginner | Intermediate | Advanced | Expert | OtherDifficulty string

record Range =
  range_min :: jsnum
  range_max :: jsnum

text \<open>An optional flag is read for its truthiness only, so an absent flag is \<open>False\<close>.\<close>

record ProblemConfig =
  operation :: Operation
  difficulty :: Difficulty
  includeDecimals :: bool
  includeNegatives :: bool
  multiStep :: bool
  mixedOperations :: bool
  customRange :: "Range option"

text \<open>The operator palette \<open>['+', '-', '\<times>']\<close> of multi-step problems.\<close>

datatype Operator = Plus | Minus | Times

text \<open>
  The expression text, kept as the template it is built from: \<open>a + b\<close>, \<open>a - b\<close>,
  \<open>a \<times> b\<close>, \<open>a \<div> b\<close>, \<open>p% of base\<close>, and the three-number form, where an operator
  is \<open>None\<close> when the palette index is out of range (\<open>undefined\<close>).
\<close>

datatype Expression =
  AddExpr jsnum jsnum
  | SubExpr jsnum jsnum
  | MulExpr jsnum jsnum
  | DivExpr jsnum jsnum
  | PercentExpr jsnum jsnum
  | MultiExpr jsnum "Operator option" jsnum "Operator option" jsnum

text \<open>
  \<open>problemId\<close> is the random part of the id; the clock part of the id, the creation
  time and \<open>displayExpression\<close> (always equal to \<open>expression\<close>) are left out.
\<close>

record MathProblem =
  problemId :: jsnum
  problemOperation :: Operation
  problemDifficulty :: Difficulty
  expression :: Expression
  answer :: jsnum
  factors :: "jsnum list"
  isMultiStep :: bool

datatype error = UnsupportedOperation string | SessionNotStarted

text \<open>
  The process-wide random source: the sequence of values \<open>Math.random()\<close> returns
  from now on, each in \<open>[0, 1)\<close>.
\<close>

type_synonym rng = "nat \<Rightarrow> real"

definition random :: "rng \<Rightarrow> jsnum \<times> rng" where
  "random g = (Fin (g 0), \<lambda>n. g (Suc n))"

definition randomInRange :: "jsnum \<Rightarrow> jsnum \<Rightarrow> rng \<Rightarrow> jsnum \<times> rng" where
  "randomInRange lo hi g =
     (case random g of (r, g') \<Rightarrow>
        (js_add (js_floor (js_mul r (js_add (js_sub hi lo) (Fin 1)))) lo, g'))"

fun getRange :: "Difficulty \<Rightarrow> Range option \<Rightarrow> Range" where
  "getRange d (Some custom) = custom"
| "getRange Beginner None = \<lparr>range_min = Fin 1, range_max = Fin 10\<rparr>"
| "getRange Intermediate None = \<lparr>range_min = Fin 1, range_max = Fin 100\<rparr>"
| "getRange Advanced None = \<lparr>range_min = Fin 1, range_max = Fin 1000\<rparr>"
| "getRange Expert None = \<lparr>range_min = Fin 1, range_max = Fin 10000\<rparr>"
| "getRange (OtherDifficulty s) None = \<lparr>range_min = Fin 1, range_max = Fin 100\<rparr>"

definition generateId :: "rng \<Rightarrow> jsnum \<times> rng" where
  "generateId g = random g"

definition generateAddition :: "ProblemConfig \<Rightarrow> jsnum \<Rightarrow> rng \<Rightarrow> MathProblem \<times> rng" where
  "generateAddition config pid g =
     (let range = getRange (difficulty config) (customRange config) in
      case randomInRange (range_min range) (range_max range) g of (a, g1) \<Rightarrow>
      case randomInRange (range_min range) (range_max range) g1 of (b, g2) \<Rightarrow>
        (\<lparr>problemId = pid, problemOperation = Addition,
          problemDifficulty = difficulty config, expression = AddExpr a b,
          answer = js_add a b, factors = [a, b], isMultiStep = False\<rparr>, g2))"

definition generateSubtraction :: "ProblemConfig \<Rightarrow> jsnum \<Rightarrow> rng \<Rightarrow> MathProblem \<times> rng" where
  "generateSubtraction config pid g =
     (let range = getRange (difficulty config) (customRange config) in
      case randomInRange (range_min range) (range_max range) g of (a0, g1) \<Rightarrow>
      case randomInRange (range_min range) (range_max range) g1 of (b0, g2) \<Rightarrow>
        (let swap = (\<not> includeNegatives config \<and> js_gt b0 a0);
             a = (if swap then b0 else a0);
             b = (if swap then a0 else b0)
         in (\<lparr>problemId = pid, problemOperation = Subtraction,
              problemDifficulty = difficulty config, expression = SubExpr a b,
              answer = js_sub a b, factors = [a, b], isMultiStep = False\<rparr>, g2)))"

definition generateMultiplication :: "ProblemConfig \<Rightarrow> jsnum \<Rightarrow> rng \<Rightarrow> MathProblem \<times> rng" where
  "generateMultiplication config pid g =
     (let range = getRange (difficulty config) (customRange config) in
      case randomInRange (range_min range) (range_max range) g of (a, g1) \<Rightarrow>
      case randomInRange (range_min range) (range_max range) g1 of (b, g2) \<Rightarrow>
        (\<lparr>problemId = pid, problemOperation = Multiplication,
          problemDifficulty = difficulty config, expression = MulExpr a b,
          answer = js_mul a b, factors = [a, b], isMultiStep = False\<rparr>, g2))"

definition generateDivision :: "ProblemConfig \<Rightarrow> jsnum \<Rightarrow> rng \<Rightarrow> MathProblem \<times> rng" where
  "generateDivision config pid g =
     (let range = getRange (difficulty config) (customRange config) in
      case randomInRange (js_max (Fin 1) (range_min range)) (range_max range) g of (b, g1) \<Rightarrow>
      case randomInRange (range_min range) (js_floor (js_div (range_max range) b)) g1
        of (quot, g2) \<Rightarrow>
        (let a = js_mul b quot in
         (\<lparr>problemId = pid, problemOperation = Division,
           problemDifficulty = difficulty config, expression = DivExpr a b,
           answer = quot, factors = [a, b], isMultiStep = False\<rparr>, g2)))"

definition generatePercentage :: "ProblemConfig \<Rightarrow> jsnum \<Rightarrow> rng \<Rightarrow> MathProblem \<times> rng" where
  "generatePercentage config pid g =
     (let range = getRange (difficulty config) (customRange config) in
      case randomInRange (Fin 10) (range_max range) g of (base, g1) \<Rightarrow>
      case randomInRange (Fin 5) (Fin 100) g1 of (percentage, g2) \<Rightarrow>
        (\<lparr>problemId = pid, problemOperation = Percentage,
          problemDifficulty = difficulty config, expression = PercentExpr percentage base,
          answer = js_round (js_div (js_mul base percentage) (Fin 100)),
          factors = [base, percentage], isMultiStep = False\<rparr>, g2))"

text \<open>\<open>operations[Math.floor(Math.random() * operations.length)]\<close>\<close>

definition pickOperator :: "rng \<Rightarrow> Operator option \<times> rng" where
  "pickOperator g =
     (case random g of (r, g') \<Rightarrow>
        (let i = js_floor (js_mul r (Fin 3)) in
         (if i = Fin 0 then Some Plus else if i = Fin 1 then Some Minus
          else if i = Fin 2 then Some Times else None), g'))"

fun applyOperator :: "Operator \<Rightarrow> jsnum \<Rightarrow> jsnum \<Rightarrow> jsnum" where
  "applyOperator Plus a b = js_add a b"
| "applyOperator Minus a b = js_sub a b"
| "applyOperator Times a b = js_mul a b"

text \<open>
  \<open>evaluateExpression\<close> hands the text to the JavaScript evaluator: multiplication
  binds tighter, operators of equal precedence associate to the left, and a text that
  does not parse (an \<open>undefined\<close> operator) is caught and gives 0.
\<close>

fun evaluateExpression :: "Expression \<Rightarrow> jsnum" where
  "evaluateExpression (MultiExpr n0 (Some o0) n1 (Some o1) n2) =
     (if o1 = Times \<and> o0 \<noteq> Times then applyOperator o0 n0 (js_mul n1 n2)
      else applyOperator o1 (applyOperator o0 n0 n1) n2)"
| "evaluateExpression (MultiExpr n0 _ n1 _ n2) = Fin 0"
| "evaluateExpression (AddExpr a b) = js_add a b"
| "evaluateExpression (SubExpr a b) = js_sub a b"
| "evaluateExpression (MulExpr a b) = js_mul a b"
| "evaluateExpression (DivExpr a b) = js_div a b"
| "evaluateExpression (PercentExpr p b) = Fin 0"

definition generateMultiStepProblem :: "ProblemConfig \<Rightarrow> jsnum \<Rightarrow> rng \<Rightarrow> MathProblem \<times> rng" where
  "generateMultiStepProblem config pid g =
     (let range = getRange (difficulty config) (customRange config) in
      case randomInRange (range_min range) (range_max range) g of (n0, g1) \<Rightarrow>
      case randomInRange (range_min range) (range_max range) g1 of (n1, g2) \<Rightarrow>
      case randomInRange (range_min range) (range_max range) g2 of (n2, g3) \<Rightarrow>
      case pickOperator g3 of (op0, g4) \<Rightarrow>
      case pickOperator g4 of (op1, g5) \<Rightarrow>
        (let expr = MultiExpr n0 op0 n1 op1 n2 in
         (\<lparr>problemId = pid, problemOperation = operation config,
           problemDifficulty = difficulty config, expression = expr,
           answer = evaluateExpression expr, factors = [n0, n1, n2],
           isMultiStep = True\<rparr>, g5)))"

definition generateProblem :: "ProblemConfig \<Rightarrow> rng \<Rightarrow> error + MathProblem \<times> rng" where
  "generateProblem config g =
     (case generateId g of (pid, g0) \<Rightarrow>
        if multiStep config then Inr (generateMultiStepProblem config pid g0)
        else (case operation config of
                Addition \<Rightarrow> Inr (generateAddition config pid g0)
              | Subtraction \<Rightarrow> Inr (generateSubtraction config pid g0)
              | Multiplication \<Rightarrow> Inr (generateMultiplication config pid g0)
              | Division \<Rightarrow> Inr (generateDivision config pid g0)
              | Percentage \<Rightarrow> Inr (generatePercentage config pid g0)
              | OtherOperation s \<Rightarrow> Inl (UnsupportedOperation s)))"

text \<open>
  The loop of \<open>generateProblemSet\<close>: \<open>n\<close> iterations are left, \<open>problems\<close> is the
  array so far; a throw of \<open>generateProblem\<close> leaves the loop.
\<close>

fun problemSetLoop ::
  "ProblemConfig \<Rightarrow> nat \<Rightarrow> MathProblem list \<Rightarrow> rng \<Rightarrow> error + MathProblem list" where
  "problemSetLoop config 0 problems g = Inr problems"
| "problemSetLoop config (Suc n) problems g =
     (case generateProblem config g of
        Inl e \<Rightarrow> Inl e
      | Inr (p, g') \<Rightarrow> problemSetLoop config n (problems @ [p]) g')"

definition generateProblemSet :: "ProblemConfig \<Rightarrow> nat \<Rightarrow> rng \<Rightarrow> error + MathProblem list" where
  "generateProblemSet config count g = problemSetLoop config count [] g"

section \<open>Practice session (usePracticeSession)\<close>

datatype PracticeMode = Timed | Accuracy | Audio

text \<open>The arguments of the hook; a loop over \<open>sessionLength\<close> counts up from 0.\<close>

record SessionParams =
  mode :: PracticeMode
  config :: ProblemConfig
  sessionLength :: nat
  timeLimit :: int

datatype Feedback = NoFeedback | Correct | Incorrect jsnum

text \<open>
  \<open>userAnswer\<close> holds the submitted text, represented by the number \<open>parseFloat\<close>
  reads from it (\<open>None\<close> for the empty text); \<open>problemStartTime\<close>, which nothing
  reads, is left out.
\<close>

record PracticeSessionState =
  problems :: "MathProblem list"
  currentProblemIndex :: nat
  currentProblem :: "MathProblem option"
  userAnswer :: "jsnum option"
  isCorrect :: "bool option"
  score :: nat
  correctAnswers :: nat
  timeElapsed :: nat
  timeRemaining :: "int option"
  isActive :: bool
  isComplete :: bool
  feedback :: Feedback
  sessionStartTime :: "int option"

definition initialState :: "SessionParams \<Rightarrow> PracticeSessionState" where
  "initialState P =
     \<lparr>problems = [], currentProblemIndex = 0, currentProblem = None,
      userAnswer = None, isCorrect = None, score = 0, correctAnswers = 0,
      timeElapsed = 0,
      timeRemaining = (if mode P = Timed then Some (timeLimit P) else None),
      isActive = False, isComplete = False, feedback = NoFeedback,
      sessionStartTime = None\<rparr>"

text \<open>\<open>problems[0]\<close> of an empty array is \<open>undefined\<close>.\<close>

definition startSession :: "SessionParams \<Rightarrow> int \<Rightarrow> rng \<Rightarrow> error + PracticeSessionState" where
  "startSession P now g =
     (case generateProblemSet (config P) (sessionLength P) g of
        Inl e \<Rightarrow> Inl e
      | Inr ps \<Rightarrow>
          Inr \<lparr>problems = ps, currentProblemIndex = 0,
               currentProblem = (case ps of [] \<Rightarrow> None | p # rest \<Rightarrow> Some p),
               userAnswer = None, isCorrect = None, score = 0, correctAnswers = 0,
               timeElapsed = 0,
               timeRemaining = (if mode P = Timed then Some (timeLimit P) else None),
               isActive = True, isComplete = False, feedback = NoFeedback,
               sessionStartTime = Some now\<rparr>)"

text \<open>The callback of the one-second interval that \<open>startSession\<close> installs.\<close>

definition tick :: "SessionParams \<Rightarrow> PracticeSessionState \<Rightarrow> PracticeSessionState" where
  "tick P prev =
     (if \<not> isActive prev then prev
      else
        let newTimeElapsed = timeElapsed prev + 1;
            newTimeRemaining =
              (if mode P = Timed
               then Some (max 0 ((case timeRemaining prev of None \<Rightarrow> 0 | Some t \<Rightarrow> t) - 1))
               else None)
        in if mode P = Timed \<and> newTimeRemaining = Some 0
           then prev\<lparr>isComplete := True, isActive := False\<rparr>
           else prev\<lparr>timeElapsed := newTimeElapsed, timeRemaining := newTimeRemaining\<rparr>)"

text \<open>
  \<open>submitAnswer\<close> sets the state and then, whatever the state was, arms a timer that
  calls \<open>nextProblem\<close> after a delay: the result is the new state and the delay, in
  milliseconds, of the advance that is armed.
\<close>

definition submitAnswer ::
  "SessionParams \<Rightarrow> jsnum \<Rightarrow> PracticeSessionState \<Rightarrow> PracticeSessionState \<times> nat" where
  "submitAnswer P numericAnswer prev =
     ((case currentProblem prev of
         None \<Rightarrow> prev
       | Some p \<Rightarrow>
           if \<not> isActive prev then prev
           else
             let ok = validateAnswer numericAnswer (answer p) defaultTolerance;
                 newCorrectAnswers = correctAnswers prev + (if ok then 1 else 0);
                 newScore = score prev + (if ok then 10 else 0)
             in prev\<lparr>userAnswer := Some numericAnswer, isCorrect := Some ok,
                      correctAnswers := newCorrectAnswers, score := newScore,
                      feedback := (if ok then Correct else Incorrect (answer p))\<rparr>),
      if mode P = Audio then 2000 else 1500)"

definition nextProblem :: "PracticeSessionState \<Rightarrow> PracticeSessionState" where
  "nextProblem prev =
     (let nextIndex = currentProblemIndex prev + 1 in
      if nextIndex \<ge> length (problems prev)
      then prev\<lparr>isComplete := True, isActive := False, currentProblem := None\<rparr>
      else prev\<lparr>currentProblemIndex := nextIndex,
                 currentProblem := Some (problems prev ! nextIndex),
                 userAnswer := None, isCorrect := None, feedback := NoFeedback\<rparr>)"

definition skipProblem :: "PracticeSessionState \<Rightarrow> PracticeSessionState" where
  "skipProblem prev = nextProblem prev"

definition endSession :: "PracticeSessionState \<Rightarrow> PracticeSessionState" where
  "endSession prev = prev\<lparr>isComplete := True, isActive := False\<rparr>"

record SessionResults =
  problemsSolved :: nat
  resultCorrectAnswers :: nat
  accuracy :: real
  totalTime :: nat
  averageTime :: real
  resultScore :: nat

definition sessionResults :: "PracticeSessionState \<Rightarrow> SessionResults" where
  "sessionResults state =
     \<lparr>problemsSolved = currentProblemIndex state + (if isCorrect state \<noteq> None then 1 else 0),
      resultCorrectAnswers = correctAnswers state,
      accuracy = real (correctAnswers state) / real (max (currentProblemIndex state) 1) * 100,
      totalTime = timeElapsed state,
      averageTime = real (timeElapsed state) / real (max (currentProblemIndex state) 1),
      resultScore = score state\<rparr>"

subsection \<open>What happens to a session\<close>

datatype event =
  StartSession int rng
  | SubmitAnswer jsnum
  | NextProblem
  | SkipProblem
  | EndSession
  | Tick

text \<open>
  A \<open>startSession\<close> that throws sets no state.  The advance that a submitted answer
  arms arrives as a later \<open>NextProblem\<close>.
\<close>

fun step :: "SessionParams \<Rightarrow> PracticeSessionState \<Rightarrow> event \<Rightarrow> PracticeSessionState" where
  "step P s (StartSession now g) =
     (case startSession P now g of Inl e \<Rightarrow> s | Inr s' \<Rightarrow> s')"
| "step P s (SubmitAnswer a) = fst (submitAnswer P a s)"
| "step P s NextProblem = nextProblem s"
| "step P s SkipProblem = skipProblem s"
| "step P s EndSession = endSession s"
| "step P s Tick = tick P s"

definition run :: "SessionParams \<Rightarrow> event list \<Rightarrow> PracticeSessionState" where
  "run P evs = foldl (step P) (initialState P) evs"

section \<open>Local database (db)\<close>

text \<open>
  A table is the list of its rows in primary-key order; the key itself is left out.
  Times are local milliseconds.  Field names are prefixed by their table where two tables
  share them.
\<close>

record UserProgress =
  up_operation :: Operation
  up_difficulty :: Difficulty
  up_problemsSolved :: nat
  up_correctAnswers :: nat
  up_totalTime :: nat
  up_bestTime :: "real option"
  up_streak :: nat
  up_lastPracticed :: "int option"
  up_createdAt :: int
  up_updatedAt :: int

record PracticeSession =
  ps_mode :: PracticeMode
  ps_operation :: Operation
  ps_difficulty :: Difficulty
  ps_problemsSolved :: nat
  ps_correctAnswers :: nat
  ps_sessionTime :: nat
  ps_accuracy :: real
  ps_avgTimePerProblem :: "real option"
  ps_completedAt :: "int option"

text \<open>The requirement of an achievement, a JSON text in the table, by its \<open>type\<close>.\<close>

datatype AchievementCheck =
  ProblemsSolved int
  | SessionAccuracy int
  | AvgTime int string
  | DailyStreak int
  | AllOperationsMastered int
  | AccuracyStreak int int
  | DailyTime int
  | ModeProblems string int

text \<open>The icon of an achievement is left out.\<close>

record Achievement =
  name :: string
  description :: string
  category :: string
  requirement :: AchievementCheck
  unlockedAt :: "int option"

text \<open>
  A settings row; the last three fields are the interface-only settings, which only
  some writers store.
\<close>

record UserSettings =
  dyslexiaMode :: bool
  highContrast :: bool
  largeText :: bool
  soundEffects :: bool
  voiceFeedback :: bool
  voiceSpeed :: real
  darkMode :: bool
  updatedAt :: int
  animations :: "bool option"
  notifications :: "bool option"
  autoSave :: "bool option"

record Database =
  practiceSessions :: "PracticeSession list"
  userProgress :: "UserProgress list"
  achievements :: "Achievement list"
  userSettings :: "UserSettings list"

definition defaultAchievements :: "Achievement list" where
  "defaultAchievements =
     [\<lparr>name = ''First Steps'', description = ''Complete your first problem'',
       category = ''milestone'', requirement = ProblemsSolved 1, unlockedAt = None\<rparr>,
      \<lparr>name = ''Perfect Score'', description = ''Get 100% accuracy in a session'',
       category = ''accuracy'', requirement = SessionAccuracy 100, unlockedAt = None\<rparr>,
      \<lparr>name = ''Speed Demon'', description = ''Average under 2 seconds per problem'',
       category = ''speed'', requirement = AvgTime 2 ''less'', unlockedAt = None\<rparr>,
      \<lparr>name = ''Hot Streak'', description = ''Practice 7 days in a row'',
       category = ''streak'', requirement = DailyStreak 7, unlockedAt = None\<rparr>,
      \<lparr>name = ''Century Club'', description = ''Solve 100 problems'',
       category = ''milestone'', requirement = ProblemsSolved 100, unlockedAt = None\<rparr>,
      \<lparr>name = ''Math Master'', description = ''Master all 5 operations'',
       category = ''milestone'', requirement = AllOperationsMastered 5, unlockedAt = None\<rparr>,
      \<lparr>name = ''Accuracy Ace'', description = ''Maintain 95% accuracy over 50 problems'',
       category = ''accuracy'', requirement = AccuracyStreak 95 50, unlockedAt = None\<rparr>,
      \<lparr>name = ''Marathon Runner'', description = ''Practice for 1 hour in a single day'',
       category = ''milestone'', requirement = DailyTime 3600, unlockedAt = None\<rparr>,
      \<lparr>name = ''Audio Expert'', description = ''Complete 20 problems in audio-only mode'',
       category = ''milestone'', requirement = ModeProblems ''audio'' 20, unlockedAt = None\<rparr>,
      \<lparr>name = ''Lightning Fast'', description = ''Average under 1 second per problem'',
       category = ''speed'', requirement = AvgTime 1 ''less'', unlockedAt = None\<rparr>]"

text \<open>\<open>initializeDB\<close>: seed each of the two tables when it is empty.\<close>

definition initializeDB :: "Database \<Rightarrow> int \<Rightarrow> Database" where
  "initializeDB db now =
     (let db1 = (if length (achievements db) = 0
                 then db\<lparr>achievements := achievements db @ defaultAchievements\<rparr> else db)
      in if length (userSettings db1) = 0
         then db1\<lparr>userSettings := userSettings db1 @
                [\<lparr>dyslexiaMode = False, highContrast = False, largeText = False,
                  soundEffects = True, voiceFeedback = True, voiceSpeed = 1,
                  darkMode = False, updatedAt = now, animations = None,
                  notifications = None, autoSave = None\<rparr>]\<rparr>
         else db1)"

text \<open>\<open>{...defaultSettings, updatedAt: new Date()}\<close> of the settings hook.\<close>

definition defaultSettings :: "int \<Rightarrow> UserSettings" where
  "defaultSettings now =
     \<lparr>dyslexiaMode = False, highContrast = False, largeText = False,
      soundEffects = True, voiceFeedback = True, voiceSpeed = 1, darkMode = False,
      updatedAt = now, animations = Some True, notifications = Some True,
      autoSave = Some True\<rparr>"

text \<open>\<open>clearAllData\<close>, when no table operation fails.\<close>

definition clearAllData :: "Database \<Rightarrow> int \<Rightarrow> Database" where
  "clearAllData db now =
     (let cleared = db\<lparr>practiceSessions := [], userProgress := [],
                       achievements := [], userSettings := []\<rparr>
      in cleared\<lparr>userSettings := userSettings cleared @ [defaultSettings now]\<rparr>)"

section \<open>Saving the results of a session\<close>

fun updateFirst :: "('a \<Rightarrow> bool) \<Rightarrow> ('a \<Rightarrow> 'a) \<Rightarrow> 'a list \<Rightarrow> 'a list" where
  "updateFirst pred f [] = []"
| "updateFirst pred f (x # xs) = (if pred x then f x # xs else x # updateFirst pred f xs)"

text \<open>
  \<open>saveResults\<close> up to the write of the progress bucket: the results computed and
  the database as the two writes leave it.  The awaited achievement check that follows
  is not part of this function; whether it resolves or rejects, the rows are written
  before it and are as here.  The session row is written without a \<open>completedAt\<close>.
\<close>

definition saveResults ::
  "SessionParams \<Rightarrow> PracticeSessionState \<Rightarrow> Database \<Rightarrow> int \<Rightarrow> error + SessionResults \<times> Database" where
  "saveResults P state db now =
     (if sessionStartTime state = None then Inl SessionNotStarted
      else
        let results = sessionResults state;
            sessionData =
              \<lparr>ps_mode = mode P, ps_operation = operation (config P),
               ps_difficulty = difficulty (config P),
               ps_problemsSolved = problemsSolved results,
               ps_correctAnswers = resultCorrectAnswers results,
               ps_sessionTime = totalTime results, ps_accuracy = accuracy results,
               ps_avgTimePerProblem = Some (averageTime results),
               ps_completedAt = None\<rparr>;
            db1 = db\<lparr>practiceSessions := practiceSessions db @ [sessionData]\<rparr>;
            same = (\<lambda>progress. up_operation progress = operation (config P)
                       \<and> up_difficulty progress = difficulty (config P))
        in case find same (userProgress db1) of
             Some existingProgress \<Rightarrow>
               Inr (results,
                 db1\<lparr>userProgress := updateFirst same
                   (\<lambda>row. row\<lparr>up_problemsSolved :=
                              up_problemsSolved existingProgress + problemsSolved results,
                            up_correctAnswers :=
                              up_correctAnswers existingProgress + resultCorrectAnswers results,
                            up_totalTime := up_totalTime existingProgress + totalTime results,
                            up_lastPracticed := Some now, up_updatedAt := now\<rparr>)
                   (userProgress db1)\<rparr>)
           | None \<Rightarrow>
               Inr (results,
                 db1\<lparr>userProgress := userProgress db1 @
                   [\<lparr>up_operation = operation (config P),
                     up_difficulty = difficulty (config P),
                     up_problemsSolved = problemsSolved results,
                     up_correctAnswers = resultCorrectAnswers results,
                     up_totalTime = totalTime results, up_bestTime = None, up_streak = 1,
                     up_lastPracticed = Some now, up_createdAt = now,
                     up_updatedAt = now\<rparr>]\<rparr>))"

text \<open>
  The database after the sessions of a list have been saved one after the other, each
  with the hook's arguments, its final state and the time of the save; a save refused
  because the session was never started writes nothing.
\<close>

fun saveAll :: "(SessionParams \<times> PracticeSessionState \<times> int) list \<Rightarrow> Database \<Rightarrow> Database" where
  "saveAll [] db = db"
| "saveAll ((P, s, now) # rest) db =
     (case saveResults P s db now of
        Inl e \<Rightarrow> saveAll rest db
      | Inr (r, db') \<Rightarrow> saveAll rest db')"

section \<open>Achievement engine: the daily streak\<close>

definition msPerDay :: int where
  "msPerDay = 86400000"

text \<open>\<open>setHours(0, 0, 0, 0)\<close>, and \<open>setDate(getDate() - 1)\<close> on a midnight.\<close>

definition startOfDay :: "int \<Rightarrow> int" where
  "startOfDay t = t - t mod msPerDay"

definition previousDay :: "int \<Rightarrow> int" where
  "previousDay t = t - msPerDay"

text \<open>
  \<open>orderBy('completedAt').reverse()\<close>: the rows the index holds (those with a
  \<open>completedAt\<close>), by descending key.
\<close>

definition newestFirst :: "PracticeSession list \<Rightarrow> PracticeSession list" where
  "newestFirst tbl =
     rev (sort_key (\<lambda>s. the (ps_completedAt s)) (filter (\<lambda>s. ps_completedAt s \<noteq> None) tbl))"

fun streakLoop :: "PracticeSession list \<Rightarrow> nat \<Rightarrow> int \<Rightarrow> nat" where
  "streakLoop [] streak currentDate = streak"
| "streakLoop (session # rest) streak currentDate =
     (let sessionDate = startOfDay (the (ps_completedAt session)) in
      if sessionDate = currentDate
      then streakLoop rest (streak + 1) (previousDay currentDate)
      else if sessionDate < currentDate then streak
      else streakLoop rest streak currentDate)"

definition checkDailyStreak :: "Database \<Rightarrow> int \<Rightarrow> int \<Rightarrow> bool" where
  "checkDailyStreak db targetStreak now =
     (let sessions = newestFirst (practiceSessions db) in
      if length sessions = 0 then False
      else int (streakLoop sessions 0 (startOfDay now)) \<ge> targetStreak)"

subsection \<open>The streak as the specification words it\<close>

definition calendarDay :: "int \<Rightarrow> int" where
  "calendarDay t = t div msPerDay"

definition sessionDays :: "Database \<Rightarrow> int list" where
  "sessionDays db = map calendarDay (List.map_filter ps_completedAt (practiceSessions db))"

text \<open>The calendar day of a dated session.\<close>

definition dayOf :: "PracticeSession \<Rightarrow> int" where
  "dayOf s = calendarDay (the (ps_completedAt s))"

text \<open>
  The number of consecutive calendar days, walking backward from day \<open>d\<close>, each of
  which holds at least one session.
\<close>

function consecutiveDays :: "int list \<Rightarrow> int \<Rightarrow> nat" where
  "consecutiveDays days d =
     (if d \<in> set days then Suc (consecutiveDays (removeAll d days) (d - 1)) else 0)"
  by pat_completeness auto
termination
  by (relation "measure (\<lambda>(days, d). length days)") (auto simp: length_removeAll_less)

declare consecutiveDays.simps [simp del]

definition dailyStreakSpec :: "Database \<Rightarrow> int \<Rightarrow> int \<Rightarrow> bool" where
  "dailyStreakSpec db targetStreak now \<longleftrightarrow>
     targetStreak \<le> int (consecutiveDays (sessionDays db) (calendarDay now))"


section \<open>Example data\<close>

definition exampleConfig :: "Operation \<Rightarrow> bool \<Rightarrow> Range option \<Rightarrow> ProblemConfig" where
  "exampleConfig opn multi custom =
     \<lparr>operation = opn, difficulty = Beginner, includeDecimals = False,
      includeNegatives = False, multiStep = multi, mixedOperations = False,
      customRange = custom\<rparr>"

definition exampleParams :: "PracticeMode \<Rightarrow> nat \<Rightarrow> int \<Rightarrow> SessionParams" where
  "exampleParams m len limit =
     \<lparr>mode = m, config = exampleConfig Addition False None, sessionLength = len,
      timeLimit = limit\<rparr>"

text \<open>Two sequences of events, each from the start of a session.\<close>

definition twoProblemSession :: "event list" where
  "twoProblemSession =
     [StartSession 0 (\<lambda>n. 0), Tick, SubmitAnswer (Fin 2), NextProblem, Tick, Tick,
      SubmitAnswer (Fin 2), NextProblem]"

definition doubleSubmitSession :: "event list" where
  "doubleSubmitSession =
     [StartSession 0 (\<lambda>n. 0), SubmitAnswer (Fin 2), SubmitAnswer (Fin 2), NextProblem]"

text \<open>A session of one problem, started at \<open>t\<close>, answered correctly and advanced.\<close>

definition oneProblemSession :: "int \<Rightarrow> event list" where
  "oneProblemSession t = [StartSession t (\<lambda>n. 0), SubmitAnswer (Fin 2), NextProblem]"

definition emptyDatabase :: Database where
  "emptyDatabase =
     \<lparr>practiceSessions = [], userProgress = [], achievements = [], userSettings = []\<rparr>"

definition exampleSession :: "int \<Rightarrow> PracticeSession" where
  "exampleSession t =
     \<lparr>ps_mode = Accuracy, ps_operation = Addition, ps_difficulty = Beginner,
      ps_problemsSolved = 1, ps_correctAnswers = 1, ps_sessionTime = 10, ps_accuracy = 100,
      ps_avgTimePerProblem = Some 10, ps_completedAt = Some t\<rparr>"

definition exampleSessions :: "int list \<Rightarrow> Database" where
  "exampleSessions ts = emptyDatabase\<lparr>practiceSessions := map exampleSession ts\<rparr>"

text \<open>One session a day, at one o'clock, on the days 1 to 7.\<close>

definition exampleWeek :: "int list" where
  "exampleWeek =
     [90000000, 176400000, 262800000, 349200000, 435600000, 522000000, 608400000]"

text \<open>
  One such session on each day of the week, started a minute before it is saved.
\<close>

definition exampleWeekSaves :: "(SessionParams \<times> PracticeSessionState \<times> int) list" where
  "exampleWeekSaves =
     map (\<lambda>t. (exampleParams Accuracy 1 600,
               run (exampleParams Accuracy 1 600) (oneProblemSession (t - 60000)), t))
       exampleWeek"

section \<open>Rounding to a double\<close>

lemma roundHalfEven_of_int: "roundHalfEven (of_int n) = n"
  by (simp add: roundHalfEven_def)

lemma roundHalfEven_minus: "roundHalfEven (- r) = - roundHalfEven r"
proof (cases "r = of_int \<lfloor>r\<rfloor>")
  case True
  then obtain n where "r = of_int n" ..
  then show ?thesis
    by (simp add: roundHalfEven_of_int flip: of_int_minus)
next
  case False
  then have fl: "\<lfloor>- r\<rfloor> = - \<lfloor>r\<rfloor> - 1"
    by (metis ceiling_def ceiling_altdef add.commute add_diff_cancel_left' diff_minus_eq_add minus_diff_eq uminus_add_conv_diff)
  have d: "0 < r - of_int \<lfloor>r\<rfloor>" "r - of_int \<lfloor>r\<rfloor> < 1"
    using False by linarith+
  show ?thesis
    unfolding roundHalfEven_def Let_def fl using d by auto
qed

lemma exponent64_minus: "exponent64 (- x) = exponent64 x"
  by (simp add: exponent64_def)

lemma round64_minus: "round64 (- x) = js_neg (round64 x)"
proof (cases "x = 0")
  case True
  then show ?thesis by (simp add: round64_def)
next
  case False
  let ?ulp = "2 powr (of_int (exponent64 x) - 52) :: real"
  have "roundHalfEven (- x / ?ulp) = - roundHalfEven (x / ?ulp)"
    using roundHalfEven_minus [of "x / ?ulp"] by simp
  then show ?thesis
    using False by (simp add: round64_def exponent64_minus Let_def)
qed


lemma round64_dyadic:
  fixes k :: int and n :: nat
  assumes k: "k \<noteq> 0" and e: "exponent64 (of_int k / 2 ^ n) \<le> 52 - int n"
    and small: "\<bar>of_int k / 2 ^ n\<bar> < (2 :: real) ^ 1024"
  shows "round64 (of_int k / 2 ^ n) = Fin (of_int k / 2 ^ n)"
proof -
  let ?x = "of_int k / 2 ^ n :: real"
  define m where "m = nat (52 - int n - exponent64 ?x)"
  have x0: "?x \<noteq> 0" using k by simp
  have exp: "of_int (exponent64 ?x) - 52 = - real (n + m)"
    using e by (simp add: m_def)
  have ulp: "2 powr (of_int (exponent64 ?x) - 52) = inverse ((2 :: real) ^ (n + m))"
    unfolding exp by (subst powr_minus, subst powr_realpow) simp_all
  have divided: "?x / inverse ((2 :: real) ^ (n + m)) = of_int (k * 2 ^ m)"
    by (simp add: power_add field_simps)
  have again: "of_int (k * 2 ^ m) * inverse ((2 :: real) ^ (n + m)) = ?x"
    by (simp add: power_add field_simps)
  show ?thesis
    using x0 small
    by (simp only: round64_def ulp divided roundHalfEven_of_int again Let_def if_False
        powr_numeral) (simp add: not_le)
qed

lemma exponent64_bounds:
  assumes "x \<noteq> 0" "\<bar>x\<bar> < 2 ^ n"
  shows "exponent64 x < int n"
proof -
  have "log 2 \<bar>x\<bar> < log 2 (2 ^ n)"
    using assms by (simp del: log_pow_cancel)
  then have "log 2 \<bar>x\<bar> < real n" by simp
  then have "\<lfloor>log 2 \<bar>x\<bar>\<rfloor> < int n" by linarith
  then show ?thesis by (simp add: exponent64_def)
qed

text \<open>Small integers and halves are doubles: rounding leaves them as they are.\<close>

lemma round64_half:
  assumes "\<bar>x\<bar> \<le> 2 ^ 40" "of_int \<lfloor>2 * x\<rfloor> = 2 * x"
  shows "round64 x = Fin x"
proof (cases "x = 0")
  case True
  then show ?thesis by (simp add: round64_def)
next
  case False
  define k where "k = \<lfloor>2 * x\<rfloor>"
  have "2 * x = of_int k" using assms(2) by (simp only: k_def)
  then have x: "x = of_int k / 2 ^ 1" by simp
  have k: "k \<noteq> 0" using False x by auto
  have "\<bar>x\<bar> < 2 ^ 41" using assms(1) by simp
  then have "exponent64 x < 41" using exponent64_bounds [OF False, of 41] by simp
  then have e: "exponent64 (of_int k / 2 ^ 1) \<le> 52 - int 1" using x by simp
  have small: "\<bar>of_int k / 2 ^ 1\<bar> < (2 :: real) ^ 1024"
  proof -
    have "\<bar>x\<bar> \<le> (2 :: real) ^ 40" by (rule assms(1))
    also have "\<dots> < 2 ^ 1024" by (rule power_strict_increasing) simp_all
    finally show ?thesis using x by simp
  qed
  show ?thesis unfolding x by (rule round64_dyadic [OF k e small])
qed

text \<open>\<open>2^53 + 1\<close> lies midway between two doubles and goes to the even one, \<open>2^53\<close>.\<close>

lemma round64_tie: "round64 9007199254740993 = Fin 9007199254740992"
proof -
  have e: "\<lfloor>log 2 (9007199254740993 :: real)\<rfloor> = 53"
    by (subst floor_log_eq_powr_iff) simp_all
  have ulp: "2 powr (of_int (exponent64 9007199254740993) - 52) = (2 :: real)"
    by (simp add: exponent64_def e)
  have r: "roundHalfEven (9007199254740993 / 2) = 4503599627370496"
    by (simp add: roundHalfEven_def Let_def)
  show ?thesis
    by (simp add: round64_def Let_def ulp r)
qed

text \<open>The double nearest to 0.01.\<close>

lemma round64_hundredth: "round64 (1 / 100) = Fin (5764607523034235 / 576460752303423488)"
proof -
  have p7: "2 powr (- 7) = (1 / 128 :: real)" "2 powr (- 6) = (1 / 64 :: real)"
    "2 powr (- 59) = (1 / 576460752303423488 :: real)"
    by (simp_all add: powr_minus inverse_eq_divide)
  have e: "\<lfloor>log 2 (1 / 100 :: real)\<rfloor> = - 7"
    by (subst floor_log_eq_powr_iff) (simp_all add: p7)
  have ex: "exponent64 (1 / 100) = - 7"
    by (simp add: exponent64_def e)
  have ulp: "2 powr (of_int (exponent64 (1 / 100)) - 52) = (1 / 576460752303423488 :: real)"
    unfolding ex using p7(3) by simp
  have r: "roundHalfEven ((1 / 100) / (1 / 576460752303423488)) = 5764607523034235"
    by (simp add: roundHalfEven_def Let_def)
  show ?thesis
    unfolding round64_def Let_def ulp r by simp
qed

lemma defaultTolerance_value:
  "defaultTolerance = Fin (5764607523034235 / 576460752303423488)"
  by (simp only: defaultTolerance_def round64_hundredth)

section \<open>Properties of the validator\<close>

lemma js_abs_neg: "js_abs (js_neg v) = js_abs v"
  by (cases v) simp_all

lemma js_sub_finite: "js_sub (Fin x) (Fin y) = round64 (x - y)"
  by (simp add: js_sub_def)

lemma js_abs_sub_commute: "js_abs (js_sub a b) = js_abs (js_sub b a)"
proof (cases a)
  case a: (Fin x)
  show ?thesis
  proof (cases b)
    case b: (Fin y)
    have "round64 (y - x) = js_neg (round64 (x - y))"
      using round64_minus [of "x - y"] by simp
    then show ?thesis
      by (simp only: a b js_sub_finite js_abs_neg)
  qed (simp_all add: a js_sub_def)
qed (cases b; simp add: js_sub_def)+

lemma validateAnswer_finite:
  "validateAnswer (Fin u) (Fin c) (Fin t) \<longleftrightarrow> js_le (js_abs (round64 (u - c))) (Fin t)"
  by (simp only: validateAnswer_def js_sub_finite)

lemma validateAnswer_symmetric: "validateAnswer u c t = validateAnswer c u t"
  by (simp only: validateAnswer_def js_abs_sub_commute [of u c])

text \<open>
  C9, as amended.  For finite numbers the validator accepts exactly when the absolute
  value of the difference, rounded to a double as the subtraction rounds it, is at most
  the tolerance; that is the exact absolute difference wherever the difference is a
  double.  It is symmetric in its two number arguments for all numbers; a finite number
  is valid against itself exactly when the tolerance is not negative, so always at the
  default tolerance 0.01; and NaN is valid against no number and no number against NaN.
\<close>

theorem validateAnswer_tolerance:
  "(validateAnswer (Fin u) (Fin c) (Fin t) \<longleftrightarrow> js_le (js_abs (round64 (u - c))) (Fin t))
   \<and> (round64 (u - c) = Fin (u - c) \<longrightarrow>
        (validateAnswer (Fin u) (Fin c) (Fin t) \<longleftrightarrow> \<bar>u - c\<bar> \<le> t))
   \<and> validateAnswer a b tol = validateAnswer b a tol
   \<and> (validateAnswer (Fin u) (Fin u) (Fin t) \<longleftrightarrow> 0 \<le> t)
   \<and> validateAnswer (Fin u) (Fin u) defaultTolerance
   \<and> \<not> validateAnswer NaN b tol \<and> \<not> validateAnswer a NaN tol"
proof (intro conjI impI)
  show "validateAnswer (Fin u) (Fin c) (Fin t) \<longleftrightarrow> js_le (js_abs (round64 (u - c))) (Fin t)"
    by (rule validateAnswer_finite)
  show "validateAnswer (Fin u) (Fin c) (Fin t) \<longleftrightarrow> \<bar>u - c\<bar> \<le> t"
    if "round64 (u - c) = Fin (u - c)"
    using that by (simp add: validateAnswer_finite)
  show "validateAnswer a b tol = validateAnswer b a tol"
    by (rule validateAnswer_symmetric)
  show "validateAnswer (Fin u) (Fin u) (Fin t) \<longleftrightarrow> 0 \<le> t"
    by (simp add: validateAnswer_finite round64_def)
  show "validateAnswer (Fin u) (Fin u) defaultTolerance"
    by (simp add: validateAnswer_finite round64_def defaultTolerance_value)
  show "\<not> validateAnswer NaN b tol"
    by (simp add: validateAnswer_def js_sub_def)
  show "\<not> validateAnswer a NaN tol"
    by (cases a) (simp_all add: validateAnswer_def js_sub_def)
qed

theorem validateAnswer_tolerance_witness:
  "round64 (5 - 3) = Fin (5 - 3)
   \<and> validateAnswer (Fin 5) (Fin 3) (Fin 2) \<and> \<not> validateAnswer (Fin 5) (Fin 3) (Fin 1)"
proof -
  have exact: "round64 (5 - 3) = Fin (5 - 3)"
    by (simp add: round64_half)
  show ?thesis
    using validateAnswer_tolerance [of 5 3 2 NaN NaN NaN]
      validateAnswer_tolerance [of 5 3 1 NaN NaN NaN] exact
    by simp
qed

text \<open>
  C9 as stated fails: NaN, which \<open>parseFloat\<close> gives for a text that is no number, is
  not valid against itself; with a negative tolerance no number is; and the answer
  \<open>2^53 + 2\<close> is accepted for the expected 1 at the tolerance \<open>2^53\<close>, the
  difference \<open>2^53 + 1\<close> being rounded to \<open>2^53\<close>.
\<close>

theorem validateAnswer_NaN_counterexample:
  "\<not> validateAnswer NaN NaN defaultTolerance \<and> \<not> validateAnswer (Fin 1) (Fin 1) (Fin (- 1))
   \<and> validateAnswer (Fin 9007199254740994) (Fin 1) (Fin 9007199254740992)
   \<and> \<not> \<bar>9007199254740994 - 1\<bar> \<le> (9007199254740992 :: real)"
proof (intro conjI)
  show "\<not> validateAnswer NaN NaN defaultTolerance"
    by (simp add: validateAnswer_def js_sub_def)
  show "\<not> validateAnswer (Fin 1) (Fin 1) (Fin (- 1))"
    by (simp add: validateAnswer_finite round64_def)
  show "validateAnswer (Fin 9007199254740994) (Fin 1) (Fin 9007199254740992)"
    by (simp add: validateAnswer_finite round64_tie)
  show "\<not> \<bar>9007199254740994 - 1\<bar> \<le> (9007199254740992 :: real)"
    by simp
qed

section \<open>Properties of the session\<close>

lemma step_score:
  "score s = 10 * correctAnswers s \<Longrightarrow> score (step P s ev) = 10 * correctAnswers (step P s ev)"
  by (cases ev)
     (auto simp: startSession_def submitAnswer_def nextProblem_def skipProblem_def
        endSession_def tick_def Let_def split: sum.splits option.splits)

lemma foldl_step_score:
  "score s = 10 * correctAnswers s \<Longrightarrow>
   score (foldl (step P) s evs) = 10 * correctAnswers (foldl (step P) s evs)"
  by (induction evs arbitrary: s) (simp_all add: step_score)

text \<open>
  C10.  In every state a session reaches, whatever the sequence of starts, submitted
  answers, advances, skips, ticks and early ends, the score is exactly ten times the number
  of correct answers.  Both are 0 initially and after \<open>startSession\<close>; a submitted
  answer adds 1 to the correct answers and 10 to the score when it is accepted (the
  session is running, has a current problem, and the validator accepts the answer at the
  default tolerance) and adds nothing otherwise; an advance, a skip, an early end and a tick
  change neither.
\<close>

theorem score_is_ten_times_correctAnswers:
  "score (run P evs) = 10 * correctAnswers (run P evs)
   \<and> score (initialState P) = 0 \<and> correctAnswers (initialState P) = 0
   \<and> (case startSession P now g of
         Inl e \<Rightarrow> True
       | Inr s' \<Rightarrow> score s' = 0 \<and> correctAnswers s' = 0)
   \<and> (let accepted =
              (case currentProblem s of
                 None \<Rightarrow> False
               | Some p \<Rightarrow> isActive s \<and> validateAnswer a (answer p) defaultTolerance)
       in correctAnswers (fst (submitAnswer P a s))
            = correctAnswers s + (if accepted then 1 else 0)
          \<and> score (fst (submitAnswer P a s)) = score s + (if accepted then 10 else 0))
   \<and> score (nextProblem s) = score s \<and> correctAnswers (nextProblem s) = correctAnswers s
   \<and> score (skipProblem s) = score s \<and> correctAnswers (skipProblem s) = correctAnswers s
   \<and> score (endSession s) = score s \<and> correctAnswers (endSession s) = correctAnswers s
   \<and> score (tick P s) = score s \<and> correctAnswers (tick P s) = correctAnswers s"
proof (intro conjI)
  show "score (run P evs) = 10 * correctAnswers (run P evs)"
    unfolding run_def by (rule foldl_step_score) (simp add: initialState_def)
  show "score (initialState P) = 0" "correctAnswers (initialState P) = 0"
    by (simp_all add: initialState_def)
  show "case startSession P now g of
          Inl e \<Rightarrow> True
        | Inr s' \<Rightarrow> score s' = 0 \<and> correctAnswers s' = 0"
    by (simp add: startSession_def split: sum.splits)
  show "let accepted =
              (case currentProblem s of
                 None \<Rightarrow> False
               | Some p \<Rightarrow> isActive s \<and> validateAnswer a (answer p) defaultTolerance)
        in correctAnswers (fst (submitAnswer P a s))
             = correctAnswers s + (if accepted then 1 else 0)
           \<and> score (fst (submitAnswer P a s)) = score s + (if accepted then 10 else 0)"
    by (simp add: submitAnswer_def Let_def split: option.splits)
  show "score (nextProblem s) = score s" "correctAnswers (nextProblem s) = correctAnswers s"
    by (simp_all add: nextProblem_def Let_def)
  show "score (skipProblem s) = score s" "correctAnswers (skipProblem s) = correctAnswers s"
    by (simp_all add: skipProblem_def nextProblem_def Let_def)
  show "score (endSession s) = score s" "correctAnswers (endSession s) = correctAnswers s"
    by (simp_all add: endSession_def)
  show "score (tick P s) = score s" "correctAnswers (tick P s) = correctAnswers s"
    by (simp_all add: tick_def Let_def)
qed

section \<open>Evaluating the generator and the session\<close>

lemmas gen_defs = generateProblemSet_def generateProblem_def generateId_def random_def
  generateAddition_def generateDivision_def generateMultiStepProblem_def pickOperator_def
  randomInRange_def js_sub_def exampleConfig_def exampleParams_def numeral_2_eq_2
  round64_half

lemmas session_defs = run_def initialState_def startSession_def submitAnswer_def
  nextProblem_def skipProblem_def endSession_def tick_def validateAnswer_def
  defaultTolerance_value

lemma saveResults_started:
  "sessionStartTime s = Some t \<Longrightarrow>
   \<exists>db'. saveResults P s db now = Inr (sessionResults s, db')"
  by (simp add: saveResults_def Let_def split: option.splits)

lemma saveResults_first_bucket:
  "sessionStartTime s = Some t \<Longrightarrow>
   \<exists>db'. saveResults P s emptyDatabase now = Inr (sessionResults s, db')
     \<and> map (\<lambda>b. (up_correctAnswers b, up_problemsSolved b)) (userProgress db')
         = [(correctAnswers s, problemsSolved (sessionResults s))]"
  by (simp add: saveResults_def Let_def emptyDatabase_def sessionResults_def)

theorem score_is_ten_times_correctAnswers_witness:
  "(case startSession (exampleParams Accuracy 1 600) 0 (\<lambda>n. 0) of
      Inl e \<Rightarrow> False
    | Inr s \<Rightarrow>
        score s = 0 \<and> correctAnswers s = 0
        \<and> correctAnswers (fst (submitAnswer (exampleParams Accuracy 1 600) (Fin 2) s)) = 1
        \<and> score (fst (submitAnswer (exampleParams Accuracy 1 600) (Fin 2) s)) = 10
        \<and> score (fst (submitAnswer (exampleParams Accuracy 1 600) (Fin 3) s)) = 0)"
proof -
  let ?P = "exampleParams Accuracy 1 600"
  obtain s where s: "startSession ?P 0 (\<lambda>n. 0) = Inr s"
    by (simp add: gen_defs startSession_def)
  have problem: "isActive s" "\<exists>p. currentProblem s = Some p \<and> answer p = Fin 2"
    using s by (auto simp: gen_defs startSession_def)
  then obtain p where p: "currentProblem s = Some p" "answer p = Fin 2"
    by (elim exE conjE)
  have valid: "validateAnswer (Fin 2) (Fin 2) defaultTolerance"
    "\<not> validateAnswer (Fin 3) (Fin 2) defaultTolerance"
    by (simp_all add: validateAnswer_finite defaultTolerance_value round64_half)
  have zero: "score s = 0" "correctAnswers s = 0"
    using score_is_ten_times_correctAnswers
            [where P = ?P and evs = "[]" and now = 0 and g = "\<lambda>n. 0" and a = "Fin 2" and s = s] s by simp_all
  have right: "correctAnswers (fst (submitAnswer ?P (Fin 2) s)) = 1"
    "score (fst (submitAnswer ?P (Fin 2) s)) = 10"
    using score_is_ten_times_correctAnswers
            [where P = ?P and evs = "[]" and now = 0 and g = "\<lambda>n. 0" and a = "Fin 2" and s = s]
      problem(1) p valid zero
    by (simp_all add: Let_def)
  have wrong: "score (fst (submitAnswer ?P (Fin 3) s)) = 0"
    using score_is_ten_times_correctAnswers
            [where P = ?P and evs = "[]" and now = 0 and g = "\<lambda>n. 0" and a = "Fin 3" and s = s]
      problem(1) p valid zero
    by (simp add: Let_def)
  show ?thesis
    using zero right wrong by (simp only: s sum.case simp_thms)
qed

text \<open>
  C1.  A session of two addition problems (both \<open>1 + 1\<close>), both answered correctly
  and advanced past, with three ticks on the way, is complete, and \<open>saveResults\<close>
  reports two problems solved and two correct answers.  The claim gives accuracy
  2 / 2 \<times> 100 = 100 and average time 3 / 2; \<open>saveResults\<close> divides by the index
  reached, 1, and returns accuracy 200 and average time 3.
\<close>

theorem saveResults_accuracy_two_problem_session:
  "isComplete (run (exampleParams Accuracy 2 600) twoProblemSession)
   \<and> \<not> isActive (run (exampleParams Accuracy 2 600) twoProblemSession)
   \<and> (\<exists>r db. saveResults (exampleParams Accuracy 2 600)
                (run (exampleParams Accuracy 2 600) twoProblemSession) emptyDatabase 1
              = Inr (r, db)
            \<and> problemsSolved r = 2 \<and> resultCorrectAnswers r = 2 \<and> totalTime r = 3
            \<and> accuracy r = 200
            \<and> real (resultCorrectAnswers r) / real (max (problemsSolved r) 1) * 100 = 100
            \<and> averageTime r = 3
            \<and> real (totalTime r) / real (max (problemsSolved r) 1) = 3 / 2)"
proof -
  let ?P = "exampleParams Accuracy 2 600"
  let ?s = "run ?P twoProblemSession"
  have flags: "isComplete ?s" "\<not> isActive ?s"
    by (simp_all add: twoProblemSession_def gen_defs session_defs)
  have started: "sessionStartTime ?s = Some 0"
    by (simp add: twoProblemSession_def gen_defs session_defs)
  have counters: "currentProblemIndex ?s = 1" "isCorrect ?s = Some True"
    "correctAnswers ?s = 2" "timeElapsed ?s = 3"
    by (simp_all add: twoProblemSession_def gen_defs session_defs)
  have results: "problemsSolved (sessionResults ?s) = 2"
    "resultCorrectAnswers (sessionResults ?s) = 2" "totalTime (sessionResults ?s) = 3"
    "accuracy (sessionResults ?s) = 200"
    "real (resultCorrectAnswers (sessionResults ?s))
       / real (max (problemsSolved (sessionResults ?s)) 1) * 100 = 100"
    "averageTime (sessionResults ?s) = 3"
    "real (totalTime (sessionResults ?s))
       / real (max (problemsSolved (sessionResults ?s)) 1) = 3 / 2"
    using counters by (simp_all add: sessionResults_def)
  have "\<exists>db. saveResults ?P ?s emptyDatabase 1 = Inr (sessionResults ?s, db)"
    by (rule saveResults_started [OF started])
  then obtain db where saved: "saveResults ?P ?s emptyDatabase 1 = Inr (sessionResults ?s, db)" ..
  show ?thesis
  proof (intro conjI)
    show "isComplete ?s" by (rule flags)
    show "\<not> isActive ?s" by (rule flags)
    show "\<exists>r db. saveResults ?P ?s emptyDatabase 1 = Inr (r, db)
            \<and> problemsSolved r = 2 \<and> resultCorrectAnswers r = 2 \<and> totalTime r = 3
            \<and> accuracy r = 200
            \<and> real (resultCorrectAnswers r) / real (max (problemsSolved r) 1) * 100 = 100
            \<and> averageTime r = 3
            \<and> real (totalTime r) / real (max (problemsSolved r) 1) = 3 / 2"
      using saved results by (intro exI [where x = "sessionResults ?s"] exI [where x = db] conjI)
  qed
qed

text \<open>
  C3.  In a session of one problem, submitting the correct answer twice before the
  advance gives two correct answers for one problem solved, in the counters, in the
  results and in the progress bucket that \<open>saveResults\<close> writes.
\<close>

theorem double_submit_breaks_invariant:
  "isComplete (run (exampleParams Accuracy 1 600) doubleSubmitSession)
   \<and> correctAnswers (run (exampleParams Accuracy 1 600) doubleSubmitSession) = 2
   \<and> (\<exists>r db. saveResults (exampleParams Accuracy 1 600)
                (run (exampleParams Accuracy 1 600) doubleSubmitSession) emptyDatabase 1
              = Inr (r, db)
            \<and> resultCorrectAnswers r = 2 \<and> problemsSolved r = 1
            \<and> map (\<lambda>b. (up_correctAnswers b, up_problemsSolved b)) (userProgress db)
                = [(2, 1)])"
proof -
  let ?P = "exampleParams Accuracy 1 600"
  let ?s = "run ?P doubleSubmitSession"
  have flags: "isComplete ?s"
    by (simp add: doubleSubmitSession_def gen_defs session_defs)
  have started: "sessionStartTime ?s = Some 0"
    by (simp add: doubleSubmitSession_def gen_defs session_defs)
  have counters: "currentProblemIndex ?s = 0" "isCorrect ?s = Some True"
    "correctAnswers ?s = 2"
    by (simp_all add: doubleSubmitSession_def gen_defs session_defs)
  have results: "problemsSolved (sessionResults ?s) = 1"
    "resultCorrectAnswers (sessionResults ?s) = 2"
    using counters by (simp_all add: sessionResults_def)
  have "\<exists>db. saveResults ?P ?s emptyDatabase 1 = Inr (sessionResults ?s, db)
          \<and> map (\<lambda>b. (up_correctAnswers b, up_problemsSolved b)) (userProgress db)
              = [(correctAnswers ?s, problemsSolved (sessionResults ?s))]"
    by (rule saveResults_first_bucket [OF started])
  then obtain db where
    saved: "saveResults ?P ?s emptyDatabase 1 = Inr (sessionResults ?s, db)
          \<and> map (\<lambda>b. (up_correctAnswers b, up_problemsSolved b)) (userProgress db)
              = [(correctAnswers ?s, problemsSolved (sessionResults ?s))]" ..
  have bucket: "map (\<lambda>b. (up_correctAnswers b, up_problemsSolved b)) (userProgress db) = [(2, 1)]"
    using conjunct2 [OF saved] by (simp only: counters results)
  show ?thesis
  proof (intro conjI)
    show "isComplete ?s" by (rule flags)
    show "correctAnswers ?s = 2" by (rule counters)
    show "\<exists>r db. saveResults ?P ?s emptyDatabase 1 = Inr (r, db)
            \<and> resultCorrectAnswers r = 2 \<and> problemsSolved r = 1
            \<and> map (\<lambda>b. (up_correctAnswers b, up_problemsSolved b)) (userProgress db)
                = [(2, 1)]"
      using conjunct1 [OF saved] results bucket
      by (intro exI [where x = "sessionResults ?s"] exI [where x = db] conjI)
  qed
qed

text \<open>
  C8.  In timed mode with a limit of two seconds, the first tick leaves the session
  running with one second elapsed and one remaining; the second tick, taken while
  running, completes the session and changes neither counter: the elapsed time stays 1
  and the remaining time stays 1.
\<close>

theorem final_tick_keeps_counters:
  "(let P = exampleParams Timed 1 2;
        s1 = run P [StartSession 0 (\<lambda>n. 0), Tick];
        s2 = run P [StartSession 0 (\<lambda>n. 0), Tick, Tick]
    in isActive s1 \<and> \<not> isComplete s1 \<and> timeElapsed s1 = 1 \<and> timeRemaining s1 = Some 1
       \<and> s2 = tick P s1 \<and> isComplete s2 \<and> \<not> isActive s2
       \<and> timeElapsed s2 = 1 \<and> timeRemaining s2 = Some 1)"
  by (simp add: gen_defs session_defs Let_def)

text \<open>
  C2.  For the division configuration with the custom range \<open>[-3, -1]\<close> and random draws
  of 0.5, the divisor drawn is 0: the problem reads \<open>NaN \<div> 0\<close> and its answer is
  \<open>-Infinity\<close>.  For the range \<open>[-10, -5]\<close> the problem is \<open>8 \<div> -2\<close>, with a divisor
  below \<open>max(1, range.min) = 1\<close>.  In both ranges the maximum is below
  \<open>max(1, range.min)\<close>.
\<close>

theorem generateDivision_negative_range:
  "(case generateProblem
          (exampleConfig Division False (Some \<lparr>range_min = Fin (- 3), range_max = Fin (- 1)\<rparr>))
          (\<lambda>n. 1 / 2) of
      Inl e \<Rightarrow> False
    | Inr (p, g) \<Rightarrow>
        expression p = DivExpr NaN (Fin 0) \<and> answer p = NInf \<and> factors p = [NaN, Fin 0])
   \<and> (case generateProblem
          (exampleConfig Division False (Some \<lparr>range_min = Fin (- 10), range_max = Fin (- 5)\<rparr>))
          (\<lambda>n. 1 / 2) of
      Inl e \<Rightarrow> False
    | Inr (p, g) \<Rightarrow> expression p = DivExpr (Fin 8) (Fin (- 2)) \<and> answer p = Fin (- 4))"
  by (simp add: gen_defs Let_def)

text \<open>
  C7, as amended.  For a configuration whose operation is none of the five, \<open>generateProblem\<close>
  throws when the multi-step flag is not set; when it is set, the operation is not
  looked at and the multi-step problem is returned.
\<close>

theorem generateProblem_unsupported:
  "operation cfg = OtherOperation s \<Longrightarrow>
   generateProblem cfg g =
     (if multiStep cfg
      then Inr (generateMultiStepProblem cfg (Fin (g 0)) (\<lambda>n. g (Suc n)))
      else Inl (UnsupportedOperation s))"
  by (simp add: generateProblem_def generateId_def random_def)

theorem generateProblem_unsupported_witness:
  "operation (exampleConfig (OtherOperation ''modulo'') False None) = OtherOperation ''modulo''
   \<and> generateProblem (exampleConfig (OtherOperation ''modulo'') False None) (\<lambda>n. 0)
       = Inl (UnsupportedOperation ''modulo'')"
  using generateProblem_unsupported
          [of "exampleConfig (OtherOperation ''modulo'') False None" "''modulo''" "\<lambda>n. 0"]
  by (simp add: exampleConfig_def)

text \<open>
  C7 as stated fails: with the multi-step flag set, an unknown operation gives a problem
  (here \<open>1 + 1 + 1\<close>) that carries the unknown operation.
\<close>

theorem generateProblem_multiStep_counterexample:
  "(case generateProblem (exampleConfig (OtherOperation ''modulo'') True None) (\<lambda>n. 0) of
      Inl e \<Rightarrow> False
    | Inr (p, g) \<Rightarrow>
        isMultiStep p \<and> problemOperation p = OtherOperation ''modulo''
        \<and> expression p = MultiExpr (Fin 1) (Some Plus) (Fin 1) (Some Plus) (Fin 1)
        \<and> answer p = Fin 3)"
  by (simp add: gen_defs Let_def)




section \<open>Clearing the database\<close>

text \<open>
  C6.  After \<open>clearAllData\<close> the sessions, the progress and the achievements are empty
  and the settings hold the one default row: the achievement catalog is not seeded
  again, as \<open>initializeDB\<close> does on an empty database.
\<close>

theorem clearAllData_leaves_no_achievements:
  "practiceSessions (clearAllData db now) = [] \<and> userProgress (clearAllData db now) = []
   \<and> achievements (clearAllData db now) = []
   \<and> userSettings (clearAllData db now) = [defaultSettings now]
   \<and> achievements (initializeDB emptyDatabase now) = defaultAchievements"
  by (simp add: clearAllData_def initializeDB_def emptyDatabase_def Let_def)

section \<open>The daily streak\<close>

lemma msPerDay_pos: "0 < msPerDay"
  by (simp add: msPerDay_def)

lemma startOfDay_mult: "startOfDay t = calendarDay t * msPerDay"
  by (simp add: startOfDay_def calendarDay_def minus_mod_eq_div_mult)

lemma previousDay_mult: "previousDay (c * msPerDay) = (c - 1) * msPerDay"
  by (simp add: previousDay_def algebra_simps)

lemma msPerDay_neq0: "msPerDay \<noteq> 0"
  by (simp add: msPerDay_def)

lemma day_mult_less: "a * msPerDay < b * msPerDay \<longleftrightarrow> a < b"
  using msPerDay_pos by simp

lemma streakLoop_Cons:
  "streakLoop (s # rest) k (c * msPerDay) =
     (if dayOf s = c then streakLoop rest (k + 1) ((c - 1) * msPerDay)
      else if dayOf s < c then k else streakLoop rest k (c * msPerDay))"
  by (simp add: Let_def startOfDay_mult previousDay_mult msPerDay_neq0 day_mult_less dayOf_def)

lemma streakLoop_char:
  "sorted_wrt (\<ge>) (map dayOf xs) \<Longrightarrow>
   k \<le> streakLoop xs k (c * msPerDay) \<and>
   (\<forall>i < streakLoop xs k (c * msPerDay) - k. c - int i \<in> dayOf ` set xs) \<and>
   c - int (streakLoop xs k (c * msPerDay) - k) \<notin> dayOf ` set xs"
proof (induction xs arbitrary: k c)
  case Nil
  then show ?case by simp
next
  case (Cons s rest)
  have sorted_rest: "sorted_wrt (\<ge>) (map dayOf rest)"
    and below: "\<forall>y \<in> set rest. dayOf y \<le> dayOf s"
    using Cons.prems by auto
  consider (same) "dayOf s = c" | (older) "dayOf s < c" | (newer) "c < dayOf s"
    by linarith
  then show ?case
  proof cases
    case same
    let ?r = "streakLoop rest (k + 1) ((c - 1) * msPerDay)"
    have r: "streakLoop (s # rest) k (c * msPerDay) = ?r"
      using same by (simp add: streakLoop_Cons del: streakLoop.simps)
    from Cons.IH[OF sorted_rest, of "k + 1" "c - 1"]
    have ih1: "k + 1 \<le> ?r"
      and ih2: "\<forall>i < ?r - (k + 1). c - 1 - int i \<in> dayOf ` set rest"
      and ih3: "c - 1 - int (?r - (k + 1)) \<notin> dayOf ` set rest"
      by auto
    have a: "\<forall>i < ?r - k. c - int i \<in> dayOf ` set (s # rest)"
    proof (intro allI impI)
      fix i assume i: "i < ?r - k"
      show "c - int i \<in> dayOf ` set (s # rest)"
      proof (cases i)
        case 0
        then show ?thesis using same by simp
      next
        case (Suc j)
        then have "j < ?r - (k + 1)" using i by simp
        then have "c - 1 - int j \<in> dayOf ` set rest" using ih2 by blast
        then show ?thesis using Suc by (simp add: algebra_simps)
      qed
    qed
    have eq: "c - int (?r - k) = c - 1 - int (?r - (k + 1))"
      using ih1 by linarith
    have b: "c - int (?r - k) \<notin> dayOf ` set (s # rest)"
    proof -
      have "c - int (?r - k) \<noteq> dayOf s" using same ih1 by simp
      moreover have "c - int (?r - k) \<notin> dayOf ` set rest" unfolding eq by (rule ih3)
      ultimately show ?thesis by simp
    qed
    show ?thesis using ih1 a b unfolding r by simp
  next
    case older
    have r: "streakLoop (s # rest) k (c * msPerDay) = k"
      using older by (simp add: streakLoop_Cons del: streakLoop.simps)
    have "c \<notin> dayOf ` set (s # rest)" using older below by auto
    then show ?thesis unfolding r by simp
  next
    case newer
    let ?r = "streakLoop rest k (c * msPerDay)"
    have r: "streakLoop (s # rest) k (c * msPerDay) = ?r"
      using newer by (simp add: streakLoop_Cons del: streakLoop.simps)
    from Cons.IH[OF sorted_rest, of k c]
    have ih1: "k \<le> ?r"
      and ih2: "\<forall>i < ?r - k. c - int i \<in> dayOf ` set rest"
      and ih3: "c - int (?r - k) \<notin> dayOf ` set rest"
      by auto
    have "c - int (?r - k) \<noteq> dayOf s" using newer by simp
    then show ?thesis using ih1 ih2 ih3 unfolding r by simp
  qed
qed

lemma consecutiveDays_char:
  "(\<forall>i < consecutiveDays days d. d - int i \<in> set days) \<and>
   d - int (consecutiveDays days d) \<notin> set days"
proof (induction days d rule: consecutiveDays.induct)
  case (1 days d)
  show ?case
  proof (cases "d \<in> set days")
    case False
    then show ?thesis by (simp add: consecutiveDays.simps[of days d])
  next
    case True
    let ?n = "consecutiveDays (removeAll d days) (d - 1)"
    have n: "consecutiveDays days d = Suc ?n"
      using True by (simp add: consecutiveDays.simps[of days d])
    from "1.IH"[OF True]
    have ih1: "\<forall>i < ?n. d - 1 - int i \<in> set (removeAll d days)"
      and ih2: "d - 1 - int ?n \<notin> set (removeAll d days)" by auto
    have a: "\<forall>i < Suc ?n. d - int i \<in> set days"
    proof (intro allI impI)
      fix i assume i: "i < Suc ?n"
      show "d - int i \<in> set days"
      proof (cases i)
        case 0 then show ?thesis using True by simp
      next
        case (Suc j)
        then have "d - 1 - int j \<in> set (removeAll d days)" using i ih1 by simp
        then show ?thesis using Suc by (simp add: algebra_simps)
      qed
    qed
    have b: "d - int (Suc ?n) \<notin> set days" using ih2 by (simp add: algebra_simps)
    show ?thesis using a b unfolding n by blast
  qed
qed

lemma streak_unique:
  fixes D :: "int set"
  assumes "\<forall>i < n. d - int i \<in> D" "d - int n \<notin> D"
    and "\<forall>i < m. d - int i \<in> D" "d - int m \<notin> D"
  shows "n = m"
proof (rule ccontr)
  assume "n \<noteq> m"
  then consider "n < m" | "m < n" by linarith
  then show False using assms by cases blast+
qed

lemma sorted_newestFirst: "sorted_wrt (\<ge>) (map dayOf (newestFirst tbl))"
proof -
  let ?k = "\<lambda>s. the (ps_completedAt s)"
  let ?ys = "sort_key ?k (filter (\<lambda>s. ps_completedAt s \<noteq> None) tbl)"
  have "sorted (map ?k ?ys)" by simp
  then have "sorted_wrt (\<lambda>a b. ?k a \<le> ?k b) ?ys" by (simp add: sorted_wrt_map)
  then have "sorted_wrt (\<lambda>a b. dayOf a \<le> dayOf b) ?ys"
    by (rule sorted_wrt_mono_rel[rotated]) (simp add: dayOf_def calendarDay_def zdiv_mono1 msPerDay_pos)
  then show ?thesis
    by (simp add: newestFirst_def sorted_wrt_map sorted_wrt_rev)
qed

lemma days_newestFirst: "dayOf ` set (newestFirst (practiceSessions db)) = set (sessionDays db)"
  by (force simp: newestFirst_def sessionDays_def dayOf_def List.map_filter_def image_iff)

lemma streakLoop_eq:
  "streakLoop (newestFirst (practiceSessions db)) 0 (startOfDay now) =
   consecutiveDays (sessionDays db) (calendarDay now)"
proof -
  let ?r = "streakLoop (newestFirst (practiceSessions db)) 0 (calendarDay now * msPerDay)"
  from streakLoop_char[OF sorted_newestFirst, where k = 0 and c = "calendarDay now" and tbl1 = "practiceSessions db"]
  have "\<forall>i < ?r. calendarDay now - int i \<in> set (sessionDays db)"
    and "calendarDay now - int ?r \<notin> set (sessionDays db)"
    by (simp_all add: days_newestFirst)
  then have "?r = consecutiveDays (sessionDays db) (calendarDay now)"
    using consecutiveDays_char[of "sessionDays db" "calendarDay now"]
    by (intro streak_unique[where D = "set (sessionDays db)" and d = "calendarDay now"]) blast+
  then show ?thesis by (simp add: startOfDay_mult)
qed

lemma newestFirst_empty: "newestFirst (practiceSessions db) = [] \<longleftrightarrow> sessionDays db = []"
proof -
  have "set (newestFirst (practiceSessions db)) = {} \<longleftrightarrow> set (sessionDays db) = {}"
    unfolding days_newestFirst[symmetric] by simp
  then show ?thesis by simp
qed

lemma checkDailyStreak_iff:
  "checkDailyStreak db v now \<longleftrightarrow> sessionDays db \<noteq> [] \<and> dailyStreakSpec db v now"
  by (simp add: checkDailyStreak_def Let_def streakLoop_eq newestFirst_empty dailyStreakSpec_def)

lemma consecutiveDays_cong:
  assumes "set days' = set days"
  shows "consecutiveDays days' d = consecutiveDays days d"
  using consecutiveDays_char[of days' d] consecutiveDays_char[of days d] assms
  by (intro streak_unique[where D = "set days" and d = d]) simp_all

lemma consecutiveDays_interval:
  assumes "set days = {d - int k + 1 .. d}"
  shows "consecutiveDays days d = k"
proof -
  have "\<forall>i < k. d - int i \<in> set days" using assms by auto
  moreover have "d - int k \<notin> set days" using assms by auto
  ultimately show ?thesis
    using consecutiveDays_char[of days d]
    by (intro streak_unique[where D = "set days" and d = d]) simp_all
qed

text \<open>
  On the rows that carry a \<open>completedAt\<close>, \<open>checkDailyStreak\<close> counts as the
  specification words it: it holds exactly when at least one such row is recorded and the
  number of consecutive calendar days, walking backward from today, that each hold one is
  at least the value.  The result depends on the set of these days only, so further
  sessions on a day change nothing; and with such rows on exactly the \<open>k\<close> days up to
  today, the value 7 is satisfied exactly when \<open>k\<close> is at least 7.
\<close>

lemma checkDailyStreak_counts:
  "(checkDailyStreak db v now \<longleftrightarrow> sessionDays db \<noteq> [] \<and> dailyStreakSpec db v now)
   \<and> (set (sessionDays db') = set (sessionDays db) \<longrightarrow>
        checkDailyStreak db' v now = checkDailyStreak db v now)
   \<and> (set (sessionDays db) = {calendarDay now - int k + 1 .. calendarDay now} \<longrightarrow>
        (checkDailyStreak db 7 now \<longleftrightarrow> 7 \<le> k))"
proof (intro conjI impI)
  show "checkDailyStreak db v now \<longleftrightarrow> sessionDays db \<noteq> [] \<and> dailyStreakSpec db v now"
    by (rule checkDailyStreak_iff)
next
  assume same: "set (sessionDays db') = set (sessionDays db)"
  then have "sessionDays db' = [] \<longleftrightarrow> sessionDays db = []"
    by (metis set_empty)
  then show "checkDailyStreak db' v now = checkDailyStreak db v now"
    using consecutiveDays_cong[OF same]
    by (simp add: checkDailyStreak_iff dailyStreakSpec_def)
next
  assume days: "set (sessionDays db) = {calendarDay now - int k + 1 .. calendarDay now}"
  have n: "consecutiveDays (sessionDays db) (calendarDay now) = k"
    by (rule consecutiveDays_interval[OF days])
  have "sessionDays db = [] \<longleftrightarrow> k = 0"
  proof -
    have "set (sessionDays db) = {} \<longleftrightarrow> k = 0" unfolding days by auto
    then show ?thesis by simp
  qed
  then show "checkDailyStreak db 7 now \<longleftrightarrow> 7 \<le> k"
    using n by (auto simp: checkDailyStreak_iff dailyStreakSpec_def)
qed

lemma sessionDays_exampleWeek: "sessionDays (exampleSessions exampleWeek) = [1, 2, 3, 4, 5, 6, 7]"
  by (simp add: sessionDays_def exampleSessions_def exampleWeek_def exampleSession_def
      emptyDatabase_def calendarDay_def msPerDay_def)

lemma sessionDays_exampleWeek': "sessionDays (exampleSessions (exampleWeek @ [612000000])) = [1, 2, 3, 4, 5, 6, 7, 7]"
  by (simp add: sessionDays_def exampleSessions_def exampleWeek_def exampleSession_def
      emptyDatabase_def calendarDay_def msPerDay_def)

lemma checkDailyStreak_counts_example:
  "checkDailyStreak (exampleSessions exampleWeek) 7 615600000
   \<and> \<not> checkDailyStreak (exampleSessions exampleWeek) 8 615600000
   \<and> checkDailyStreak (exampleSessions (exampleWeek @ [612000000])) 7 615600000
   \<and> \<not> checkDailyStreak (exampleSessions (butlast exampleWeek)) 7 529200000"
proof -
  have today: "calendarDay 615600000 = 7" "calendarDay 529200000 = 6"
    by (simp_all add: calendarDay_def msPerDay_def)
  have days6: "sessionDays (exampleSessions (butlast exampleWeek)) = [1, 2, 3, 4, 5, 6]"
    by (simp add: sessionDays_def exampleSessions_def exampleWeek_def exampleSession_def
      emptyDatabase_def calendarDay_def msPerDay_def)
  have i7: "set [1, 2, 3, 4, 5, 6, 7] = {7 - int 7 + 1 .. 7}" by auto
  have i6: "set [1, 2, 3, 4, 5, 6] = {6 - int 6 + 1 .. 6}" by auto
  have same: "set [1, 2, 3, 4, 5, 6, 7, 7 :: int] = set [1, 2, 3, 4, 5, 6, 7]" by simp
  have n8: "\<not> dailyStreakSpec (exampleSessions exampleWeek) 8 615600000"
    by (simp add: dailyStreakSpec_def sessionDays_exampleWeek today consecutiveDays.simps)
  have a: "checkDailyStreak (exampleSessions exampleWeek) 7 615600000"
    using checkDailyStreak_counts[of "exampleSessions exampleWeek" 7 615600000
            "exampleSessions exampleWeek" 7] i7
    by (auto simp: sessionDays_exampleWeek today)
  have b: "\<not> checkDailyStreak (exampleSessions exampleWeek) 8 615600000"
    using checkDailyStreak_counts[of "exampleSessions exampleWeek" 8 615600000
            "exampleSessions exampleWeek" 7] n8
    by auto
  have c: "checkDailyStreak (exampleSessions (exampleWeek @ [612000000])) 7 615600000"
    using checkDailyStreak_counts[of "exampleSessions exampleWeek" 7 615600000
            "exampleSessions (exampleWeek @ [612000000])" 7] same a
    by (auto simp: sessionDays_exampleWeek sessionDays_exampleWeek')
  have d: "\<not> checkDailyStreak (exampleSessions (butlast exampleWeek)) 7 529200000"
    using checkDailyStreak_counts[of "exampleSessions (butlast exampleWeek)" 7 529200000
            "exampleSessions (butlast exampleWeek)" 6] i6
    by (auto simp: days6 today)
  show ?thesis using a b c d by simp
qed

text \<open>With no session recorded the requirement is not satisfied, whatever the value.\<close>

lemma checkDailyStreak_empty_table:
  "dailyStreakSpec emptyDatabase 0 0 \<and> \<not> checkDailyStreak emptyDatabase 0 0"
  by (simp add: dailyStreakSpec_def checkDailyStreak_def newestFirst_def sessionDays_def
      emptyDatabase_def)

subsection \<open>The sessions that are saved\<close>

lemma newestFirst_undated:
  "\<forall>x \<in> set tbl. ps_completedAt x = None \<Longrightarrow> newestFirst tbl = []"
  by (simp add: newestFirst_def filter_empty_conv)

lemma saveResults_sessions:
  "saveResults P s db now = Inr (r, db') \<Longrightarrow>
   \<exists>row. practiceSessions db' = practiceSessions db @ [row] \<and> ps_completedAt row = None"
  by (auto simp: saveResults_def Let_def split: if_splits option.splits)

lemma saveAll_undated:
  "\<forall>x \<in> set (practiceSessions db). ps_completedAt x = None \<Longrightarrow>
   \<forall>x \<in> set (practiceSessions (saveAll saves db)). ps_completedAt x = None"
proof (induction saves arbitrary: db)
  case Nil
  then show ?case by simp
next
  case (Cons save rest)
  obtain P s now where save: "save = (P, s, now)"
    by (cases save)
  show ?case
  proof (cases "saveResults P s db now")
    case (Inl e)
    then show ?thesis using Cons save by simp
  next
    case (Inr saved)
    obtain r db' where saved: "saved = (r, db')"
      by (cases saved)
    from saveResults_sessions [of P s db now r db'] Inr saved
    obtain row where "practiceSessions db' = practiceSessions db @ [row]"
      and "ps_completedAt row = None"
      by auto
    then have "\<forall>x \<in> set (practiceSessions db'). ps_completedAt x = None"
      using Cons.prems by simp
    then have "\<forall>x \<in> set (practiceSessions (saveAll rest db')). ps_completedAt x = None"
      by (rule Cons.IH)
    then show ?thesis using Inr saved save by simp
  qed
qed

lemma saveAll_length:
  "\<forall>save \<in> set saves. sessionStartTime (fst (snd save)) \<noteq> None \<Longrightarrow>
   length (practiceSessions (saveAll saves db)) = length (practiceSessions db) + length saves"
proof (induction saves arbitrary: db)
  case Nil
  then show ?case by simp
next
  case (Cons save rest)
  obtain P s now where save: "save = (P, s, now)"
    by (cases save)
  from Cons.prems save obtain t where "sessionStartTime s = Some t"
    by auto
  from saveResults_started [OF this, of P db now]
  obtain db' where saved: "saveResults P s db now = Inr (sessionResults s, db')" ..
  from saveResults_sessions [OF saved]
  have "length (practiceSessions db') = length (practiceSessions db) + 1"
    by auto
  moreover have "length (practiceSessions (saveAll rest db'))
                 = length (practiceSessions db') + length rest"
    using Cons.prems by (intro Cons.IH) simp
  ultimately show ?case using saved save by simp
qed

lemma oneProblemSession_started:
  "sessionStartTime (run (exampleParams Accuracy 1 600) (oneProblemSession t)) = Some t"
  "isComplete (run (exampleParams Accuracy 1 600) (oneProblemSession t))"
  "problemsSolved (sessionResults (run (exampleParams Accuracy 1 600) (oneProblemSession t))) = 1"
  by (simp_all add: oneProblemSession_def gen_defs session_defs sessionResults_def)

text \<open>
  C4.  \<open>saveResults\<close> writes every session row without a \<open>completedAt\<close>, and
  \<open>checkDailyStreak\<close> reads the sessions through the index on \<open>completedAt\<close>: on a
  database that holds the sessions the application has saved, the daily-streak requirement
  is not satisfied for any value on any day.  Seven complete sessions of one problem,
  saved on seven days in a row, leave seven rows, and the requirement with value 7 is not
  satisfied on the seventh day.
\<close>

theorem saved_sessions_never_count:
  "\<not> checkDailyStreak (saveAll saves emptyDatabase) targetStreak now
   \<and> length (practiceSessions (saveAll exampleWeekSaves emptyDatabase)) = 7
   \<and> \<not> checkDailyStreak (saveAll exampleWeekSaves emptyDatabase) 7 615600000"
proof -
  have none: "\<not> checkDailyStreak (saveAll xs emptyDatabase) v t" for xs v t
  proof -
    have "\<forall>x \<in> set (practiceSessions (saveAll xs emptyDatabase)). ps_completedAt x = None"
      by (rule saveAll_undated) (simp add: emptyDatabase_def)
    then have "newestFirst (practiceSessions (saveAll xs emptyDatabase)) = []"
      by (rule newestFirst_undated)
    then show ?thesis by (simp add: checkDailyStreak_def)
  qed
  have "length (practiceSessions (saveAll exampleWeekSaves emptyDatabase))
        = length (practiceSessions emptyDatabase) + length exampleWeekSaves"
    by (rule saveAll_length)
      (auto simp: exampleWeekSaves_def oneProblemSession_started [unfolded One_nat_def])
  then have seven: "length (practiceSessions (saveAll exampleWeekSaves emptyDatabase)) = 7"
    by (simp add: emptyDatabase_def exampleWeekSaves_def exampleWeek_def)
  show ?thesis using none seven by simp
qed

theorem saved_sessions_never_count_witness:
  "length (practiceSessions (saveAll (take 2 exampleWeekSaves) emptyDatabase)) = 2
   \<and> \<not> checkDailyStreak (saveAll (take 2 exampleWeekSaves) emptyDatabase) 1 176400000"
proof -
  have "length (practiceSessions (saveAll (take 2 exampleWeekSaves) emptyDatabase))
        = length (practiceSessions emptyDatabase) + length (take 2 exampleWeekSaves)"
    by (rule saveAll_length)
      (auto simp: exampleWeekSaves_def exampleWeek_def
         oneProblemSession_started [unfolded One_nat_def])
  then have two: "length (practiceSessions (saveAll (take 2 exampleWeekSaves) emptyDatabase)) = 2"
    by (simp add: emptyDatabase_def exampleWeekSaves_def exampleWeek_def)
  show ?thesis
    using saved_sessions_never_count [of "take 2 exampleWeekSaves" 1 176400000] two
    by simp
qed

end
